theory Spec2Isabelle
  imports Main "HOL-Library.Sublist"
begin

section \<open>Values, errors and effects\<close>

text \<open>
  The conversational turn processor is TypeScript. Strings are modelled as \<open>string\<close>.
  Where the source types a parameter as \<open>any\<close> or \<open>unknown\<close>, the
  model uses \<open>js_value\<close>: the primitive values that reach these places (objects are
  never equal to a string under \<open>Array.prototype.includes\<close> and are left out).
\<close>

datatype js_value =
    JSUndefined
  | JSNull
  | JSBoolean bool
  | JSString string
  | JSSymbol string

text \<open>
  Thrown values. \<open>RateLimitExceededError\<close> and \<open>SecurityError\<close> are the two classes
  of \<open>shared/types/errors\<close> that \<open>execute\<close> tests with \<open>instanceof\<close>;
  \<open>TypeError\<close> is what the language itself throws; \<open>Error\<close> stands for every other
  thrown value. Each carries its message.
\<close>

datatype error =
    RateLimitExceededError string
  | SecurityError string
  | TypeError string
  | Error string

fun instanceof_RateLimitExceededError :: "error \<Rightarrow> bool" where
  "instanceof_RateLimitExceededError (RateLimitExceededError _) = True"
| "instanceof_RateLimitExceededError _ = False"

fun instanceof_SecurityError :: "error \<Rightarrow> bool" where
  "instanceof_SecurityError (SecurityError _) = True"
| "instanceof_SecurityError _ = False"

text \<open>
  A computation that may throw and that changes a state: it returns \<open>Inl\<close> the thrown
  value or \<open>Inr\<close> the result, with the state as it is at that moment.
  \<open>try_catch\<close> is the \<open>try { ... } catch (error) { ... }\<close> statement: the handler runs
  on the state the body left behind.
\<close>

type_synonym ('a, 's) eff = "'s \<Rightarrow> (error + 'a) \<times> 's"

definition try_catch :: "('a, 's) eff \<Rightarrow> (error \<Rightarrow> ('a, 's) eff) \<Rightarrow> ('a, 's) eff" where
  "try_catch body handler s =
     (case body s of
        (Inl error, s') \<Rightarrow> handler error s'
      | (Inr r, s') \<Rightarrow> (Inr r, s'))"

text \<open>
  Template-literal interpolation \<open>`${v}`\<close> converts \<open>v\<close> to a string; on a
  symbol the language throws a \<open>TypeError\<close>.
\<close>

fun ToString :: "js_value \<Rightarrow> error + string" where
  "ToString JSUndefined = Inr ''undefined''"
| "ToString JSNull = Inr ''null''"
| "ToString (JSBoolean b) = Inr (if b then ''true'' else ''false'')"
| "ToString (JSString s) = Inr s"
| "ToString (JSSymbol d) = Inl (TypeError ''Cannot convert a Symbol value to a string'')"

section \<open>Transcript entries\<close>

datatype role = System | User | Assistant | Tool

record Message =
  role :: role
  content :: string

record ConversationMessage = Message +
  conversationId :: string

text \<open>
  Modelled from the spec: \<open>createUserMessage\<close> and \<open>createAssistantMessage\<close>
  (\<open>../inferutils/common\<close>) are not part of the sources at hand. The turn processor
  creates "one user, one assistant" entry from them, so they are taken to tag the text
  with the role.
\<close>

definition createUserMessage :: "string \<Rightarrow> Message" where
  "createUserMessage text = \<lparr>role = User, content = text\<rparr>"

definition createAssistantMessage :: "string \<Rightarrow> Message" where
  "createAssistantMessage text = \<lparr>role = Assistant, content = text\<rparr>"

text \<open>The object spread \<open>{...m, conversationId: cid}\<close>.\<close>

definition with_conversationId :: "Message \<Rightarrow> string \<Rightarrow> ConversationMessage" where
  "with_conversationId m cid = \<lparr>role = role m, content = content m, conversationId = cid\<rparr>"

text \<open>
  \<open>IdGenerator.generateConversationId()\<close> (\<open>../utils/idGenerator\<close>, not at hand)
  returns a new identifier at every call. The generator is a state: the identifiers it
  will hand out, and how many it has issued.
\<close>

record IdGenerator =
  upcoming :: "nat \<Rightarrow> string"
  issued :: nat

definition generateConversationId :: "IdGenerator \<Rightarrow> string \<times> IdGenerator" where
  "generateConversationId g = (upcoming g (issued g), g\<lparr>issued := Suc (issued g)\<rparr>)"

section \<open>Pipeline-event bridge\<close>

text \<open>
  The constants \<open>WebSocketMessageResponses.*\<close> (\<open>../constants\<close>) are not at hand; the
  seven that the allow-list names are a parameter.
\<close>

record WebSocketMessageResponses =
  PHASE_IMPLEMENTING :: string
  PHASE_IMPLEMENTED :: string
  CODE_REVIEW :: string
  FILE_REGENERATING :: string
  FILE_REGENERATED :: string
  DEPLOYMENT_COMPLETED :: string
  COMMAND_EXECUTING :: string

definition RelevantProjectUpdateWebsoketMessages :: "WebSocketMessageResponses \<Rightarrow> string list" where
  "RelevantProjectUpdateWebsoketMessages W =
     [PHASE_IMPLEMENTING W,
      PHASE_IMPLEMENTED W,
      CODE_REVIEW W,
      FILE_REGENERATING W,
      FILE_REGENERATED W,
      DEPLOYMENT_COMPLETED W,
      COMMAND_EXECUTING W]"

text \<open>
  \<open>Array.prototype.includes\<close> on an array of strings: only a string value can be equal
  to an element.
\<close>

fun array_includes :: "string list \<Rightarrow> js_value \<Rightarrow> bool" where
  "array_includes xs (JSString s) = (s \<in> set xs)"
| "array_includes xs _ = False"

definition isProjectUpdateType :: "WebSocketMessageResponses \<Rightarrow> js_value \<Rightarrow> bool" where
  "isProjectUpdateType W type = array_includes (RelevantProjectUpdateWebsoketMessages W) type"

text \<open>
  The body of the \<open>try\<close> block of \<open>processProjectUpdates\<close>. The logger calls change
  nothing that is modelled. The payload \<open>data\<close> (\<open>_data\<close> in the source) is a parameter that the body never
  reads.
\<close>

definition preparedMessage :: "string \<Rightarrow> string" where
  "preparedMessage updateType =
     ''**<Internal Memo>**'' @ [CHR 0x0A] @ ''Project Updates: '' @ updateType @ [CHR 0x0A] @
     ''</Internal Memo>''"

definition processProjectUpdates_try ::
  "js_value \<Rightarrow> 'd \<Rightarrow> (ConversationMessage list, IdGenerator) eff" where
  "processProjectUpdates_try updateType data g =
     (case ToString updateType of
        Inl error \<Rightarrow> (Inl error, g)
      | Inr shown \<Rightarrow>
          (let (cid, g') = generateConversationId g
           in (Inr [\<lparr>role = Assistant, content = preparedMessage shown, conversationId = cid\<rparr>], g')))"

definition processProjectUpdates ::
  "js_value \<Rightarrow> 'd \<Rightarrow> (ConversationMessage list, IdGenerator) eff" where
  "processProjectUpdates updateType data =
     try_catch (processProjectUpdates_try updateType data) (\<lambda>error g. (Inr [], g))"

section \<open>Tool contracts\<close>

text \<open>
  Tool arguments and tool results are objects whose shape the processor does not know:
  it passes them on as \<open>Record<string, unknown>\<close>. An object is an association list
  read with \<open>property\<close>; a key that is absent reads as \<open>undefined\<close>.
\<close>

type_synonym json_object = "(string \<times> js_value) list"

definition property :: "json_object \<Rightarrow> string \<Rightarrow> js_value" where
  "property obj k = (case map_of obj k of None \<Rightarrow> JSUndefined | Some v \<Rightarrow> v)"

text \<open>
  The parameter schemas that occur: \<open>{type: 'string', minLength?, description}\<close> and
  \<open>{type: 'object', additionalProperties, properties, required}\<close>. The \<open>type\<close> tag
  is the constructor.
\<close>

datatype json_schema =
    StringSchema "nat option" string
  | ObjectSchema bool "(string \<times> json_schema) list" "string list"

record FunctionDefinition =
  name :: string
  description :: string
  parameters :: json_schema

text \<open>
  \<open>ToolDefinition<TArgs, TResult>\<close>. A tool acts on a state \<open>'s\<close>: its implementation
  returns a result or throws, the hooks return nothing. The field \<open>function\<close> of the
  source is \<open>function'\<close> here.

  \<open>buildEditAppTool\<close> reads \<open>args.modificationRequest\<close> and hands it to the mutator.
  The interface \<open>EditAppArgs\<close> types it as a string; what arrives is whatever the
  engine put into the argument object, so the mutator takes a \<open>js_value\<close>.
  \<open>console.log\<close> changes nothing that is modelled.
\<close>

record 's ToolDefinition =
  type :: string
  function' :: FunctionDefinition
  implementation :: "json_object \<Rightarrow> (json_object, 's) eff"
  onStart :: "(json_object \<Rightarrow> 's \<Rightarrow> 's) option"
  onComplete :: "(json_object \<Rightarrow> json_object \<Rightarrow> 's \<Rightarrow> 's) option"

definition buildEditAppTool :: "(js_value \<Rightarrow> 's \<Rightarrow> 's) \<Rightarrow> 's ToolDefinition" where
  "buildEditAppTool stateMutator =
     \<lparr>type = ''function'',
      function' =
        \<lparr>name = ''queue_request'',
         description = ''Queue up modification requests or changes, to be implemented in the next development phase'',
         parameters =
           ObjectSchema False
             [(''modificationRequest'',
               StringSchema (Some 8)
                 (''The changes needed to be made to the app. Please don'' @ [CHR 0x27] @
                  ''t supply any code level or implementation details. Provide detailed requirements and description of the changes you want to make.''))]
             [''modificationRequest'']\<rparr>,
      implementation =
        (\<lambda>args s.
           (Inr [(''content'',
                  JSString ''Modification request queued successfully, will be implemented in the next phase of development.'')],
            stateMutator (property args ''modificationRequest'') s)),
      onStart = None,
      onComplete = None\<rparr>"

section \<open>Turn processor\<close>

definition CHUNK_SIZE :: nat where
  "CHUNK_SIZE = 64"

definition FALLBACK_USER_RESPONSE :: string where
  "FALLBACK_USER_RESPONSE =
     ''I understand you'' @ [CHR 0x27] @
     ''d like to make some changes to your project. Let me make sure this is incorporated in the next phase of development.''"

text \<open>
  The fourth argument of the callback, \<open>{name, status, args?}\<close>, with the status one of
  \<open>'start' | 'success' | 'error'\<close>. Its field \<open>name\<close> is \<open>tool_name\<close> here.
\<close>

datatype status = StatusStart | StatusSuccess | StatusError

record ToolEvent =
  tool_name :: string
  status :: status
  args :: "json_object option"

text \<open>
  The caller's callback takes \<open>(message, conversationId, isStreaming, tool?)\<close> and
  returns nothing: it acts on something of the caller's, \<open>'w\<close>.
\<close>

record 'w UserConversationInputs =
  userMessage :: string
  pastMessages :: "ConversationMessage list"
  conversationResponseCallback :: "string \<Rightarrow> string \<Rightarrow> bool \<Rightarrow> ToolEvent option \<Rightarrow> 'w \<Rightarrow> 'w"

record ConversationalResponseType =
  enhancedUserRequest :: js_value
  userResponse :: string

record UserConversationOutputs =
  conversationResponse :: ConversationalResponseType
  messages :: "ConversationMessage list"

text \<open>
  What a turn can change: the identifier generator and what the callback acts on
  (\<open>world\<close>); inside the \<open>try\<close> block also the two local variables that the
  closures assign (\<open>turn_state\<close>).
\<close>

record 'w world =
  idGenerator :: IdGenerator
  outside :: 'w

record 'w turn_state =
  extractedUserResponse :: string
  extractedEnhancedRequest :: js_value
  callback_target :: 'w

definition attachLifecycle ::
  "'w UserConversationInputs \<Rightarrow> string \<Rightarrow> 'w turn_state ToolDefinition \<Rightarrow> 'w turn_state ToolDefinition" where
  "attachLifecycle inputs aiConversationId td =
     td\<lparr>onStart := Some (\<lambda>args s.
            s\<lparr>callback_target :=
                conversationResponseCallback inputs
                  ''''
                  aiConversationId
                  False
                  (Some \<lparr>tool_name = name (function' td), status = StatusStart, args = Some args\<rparr>)
                  (callback_target s)\<rparr>),
        onComplete := Some (\<lambda>args result s.
            s\<lparr>callback_target :=
                conversationResponseCallback inputs
                  ''''
                  aiConversationId
                  False
                  (Some \<lparr>tool_name = name (function' td), status = StatusSuccess, args = Some args\<rparr>)
                  (callback_target s)\<rparr>)\<rparr>"

text \<open>
  \<open>toolWebSearchDefinition\<close> and \<open>toolWeatherDefinition\<close> are constants of other
  modules (not at hand) and are parameters. Whatever they do, they cannot reach the
  local variables of \<open>execute\<close> or its callback: their state is \<open>unit\<close>, and
  \<open>module_tool\<close> makes them tools of the turn that leave its state as it is.
\<close>

definition module_tool :: "unit ToolDefinition \<Rightarrow> 's ToolDefinition" where
  "module_tool td =
     \<lparr>type = type td,
      function' = function' td,
      implementation = (\<lambda>args s. (fst (implementation td args ()), s)),
      onStart = map_option (\<lambda>h args s. s) (onStart td),
      onComplete = map_option (\<lambda>h args result s. s) (onComplete td)\<rparr>"

text \<open>
  \<open>executeInference\<close> (\<open>../inferutils/infer\<close>), the Inference Engine, is not at hand;
  what it does in a turn is a parameter. All the processor can observe of one engine
  call is the sequence of calls the engine makes to the closures it was handed (the
  streaming sink, and the hooks and implementations of the tools), and how it ends:
  with a final completion string, or with an exception (its own, a tool's, the
  callback's). That is an \<open>engine_run\<close>. No order or discipline of the calls is
  assumed, and a tool is named by its position in \<open>tools\<close>.
\<close>

datatype engine_call =
    OnChunk string
  | OnStart nat json_object
  | Implementation nat json_object
  | OnComplete nat json_object json_object

record engine_run =
  calls :: "engine_call list"
  outcome :: "error + string"

record 's InferenceArgs =
  inference_messages :: "Message list"
  agentActionName :: string
  tools :: "'s ToolDefinition list"
  onChunk :: "string \<Rightarrow> 's \<Rightarrow> 's"
  chunk_size :: nat

fun engine_step :: "'s InferenceArgs \<Rightarrow> 's \<Rightarrow> engine_call \<Rightarrow> 's" where
  "engine_step a s (OnChunk chunk) = onChunk a chunk s"
| "engine_step a s (OnStart i x) =
     (if i < length (tools a)
      then (case onStart (tools a ! i) of None \<Rightarrow> s | Some h \<Rightarrow> h x s)
      else s)"
| "engine_step a s (Implementation i x) =
     (if i < length (tools a) then snd (implementation (tools a ! i) x s) else s)"
| "engine_step a s (OnComplete i x r) =
     (if i < length (tools a)
      then (case onComplete (tools a ! i) of None \<Rightarrow> s | Some h \<Rightarrow> h x r s)
      else s)"

definition executeInference :: "engine_run \<Rightarrow> 's InferenceArgs \<Rightarrow> (string, 's) eff" where
  "executeInference run a s = (outcome run, foldl (engine_step a) s (calls run))"

text \<open>
  The \<open>try\<close> block of \<open>execute\<close>. \<open>systemPromptsResult\<close> is what
  \<open>getSystemPromptWithProjectContext(SYSTEM_PROMPT, context, false)\<close> (not at hand)
  returns or throws; \<open>run\<close> is what the engine does in this turn. The logger calls
  change nothing that is modelled. \<open>[...pastMessages, m]\<close> builds a new array, so
  \<open>pastMessages\<close> itself is never written to.
\<close>

definition execute_try ::
  "engine_run \<Rightarrow> error + Message list \<Rightarrow> unit ToolDefinition \<Rightarrow> unit ToolDefinition \<Rightarrow>
   'w UserConversationInputs \<Rightarrow> (UserConversationOutputs, 'w world) eff" where
  "execute_try run systemPromptsResult toolWebSearchDefinition toolWeatherDefinition inputs w =
     (case systemPromptsResult of
        Inl error \<Rightarrow> (Inl error, w)
      | Inr systemPrompts \<Rightarrow>
          (let (userId, g1) = generateConversationId (idGenerator w);
               messages0 = pastMessages inputs @
                 [with_conversationId (createUserMessage (userMessage inputs)) userId];
               (aiConversationId, g2) = generateConversationId g1;
               tools =
                 [attachLifecycle inputs aiConversationId (module_tool toolWebSearchDefinition),
                  attachLifecycle inputs aiConversationId (module_tool toolWeatherDefinition),
                  attachLifecycle inputs aiConversationId
                    (buildEditAppTool (\<lambda>modificationRequest s.
                       s\<lparr>extractedEnhancedRequest := modificationRequest\<rparr>))];
               (result, s) =
                 executeInference run
                   \<lparr>inference_messages = systemPrompts @ map Message.truncate messages0,
                    agentActionName = ''conversationalResponse'',
                    tools = tools,
                    onChunk = (\<lambda>chunk s.
                      (let s' = s\<lparr>callback_target :=
                                   conversationResponseCallback inputs chunk aiConversationId True None
                                     (callback_target s)\<rparr>
                       in s'\<lparr>extractedUserResponse := extractedUserResponse s' @ chunk\<rparr>)),
                    chunk_size = CHUNK_SIZE\<rparr>
                   \<lparr>extractedUserResponse = '''',
                    extractedEnhancedRequest = JSString '''',
                    callback_target = outside w\<rparr>
           in (case result of
                 Inl error \<Rightarrow> (Inl error, \<lparr>idGenerator = g2, outside = callback_target s\<rparr>)
               | Inr result_string \<Rightarrow>
                   (let conversationResponse =
                          \<lparr>enhancedUserRequest = extractedEnhancedRequest s,
                           userResponse = extractedUserResponse s\<rparr>;
                        (assistantId, g3) = generateConversationId g2
                    in (Inr \<lparr>conversationResponse = conversationResponse,
                             messages = messages0 @
                               [with_conversationId (createAssistantMessage result_string) assistantId]\<rparr>,
                        \<lparr>idGenerator = g3, outside = callback_target s\<rparr>)))))"

text \<open>The \<open>catch\<close> block of \<open>execute\<close>.\<close>

definition execute_catch ::
  "'w UserConversationInputs \<Rightarrow> error \<Rightarrow> (UserConversationOutputs, 'w world) eff" where
  "execute_catch inputs error w =
     (if instanceof_RateLimitExceededError error \<or> instanceof_SecurityError error
      then (Inl error, w)
      else
        (let (userId, g1) = generateConversationId (idGenerator w);
             (assistantId, g2) = generateConversationId g1
         in (Inr \<lparr>conversationResponse =
                     \<lparr>enhancedUserRequest = JSString (''User request: '' @ userMessage inputs),
                      userResponse = FALLBACK_USER_RESPONSE\<rparr>,
                  messages = pastMessages inputs @
                     [with_conversationId (createUserMessage (userMessage inputs)) userId,
                      with_conversationId (createAssistantMessage FALLBACK_USER_RESPONSE) assistantId]\<rparr>,
             w\<lparr>idGenerator := g2\<rparr>)))"

definition execute ::
  "engine_run \<Rightarrow> error + Message list \<Rightarrow> unit ToolDefinition \<Rightarrow> unit ToolDefinition \<Rightarrow>
   'w UserConversationInputs \<Rightarrow> (UserConversationOutputs, 'w world) eff" where
  "execute run systemPromptsResult toolWebSearchDefinition toolWeatherDefinition inputs =
     try_catch
       (execute_try run systemPromptsResult toolWebSearchDefinition toolWeatherDefinition inputs)
       (execute_catch inputs)"

section \<open>The engine's side of the tool contract\<close>

text \<open>
  Modelled from the spec: the engine validates a call's arguments against the tool's
  parameter schema before it invokes the tool ("schemas are validated by the inference
  engine before \<open>execute\<close> is invoked"; "no additional properties accepted";
  "minimum length 8"), and it calls \<open>onStart\<close> immediately before and
  \<open>onComplete\<close> immediately after each invocation. That code is not at hand.
  \<open>invoke_tool\<close> returns \<open>None\<close> for a call rejected by the schema.
\<close>

fun valid_value :: "json_schema \<Rightarrow> js_value \<Rightarrow> bool" where
  "valid_value (StringSchema minLength d) (JSString s) =
     (case minLength of None \<Rightarrow> True | Some n \<Rightarrow> n \<le> length s)"
| "valid_value _ _ = False"

fun validate_args :: "json_schema \<Rightarrow> json_object \<Rightarrow> bool" where
  "validate_args (ObjectSchema additionalProperties properties required) obj =
     (list_all (\<lambda>k. map_of obj k \<noteq> None) required \<and>
      (additionalProperties \<or> list_all (\<lambda>k. map_of properties k \<noteq> None) (map fst obj)) \<and>
      list_all (\<lambda>(k, sch). case map_of obj k of None \<Rightarrow> True | Some v \<Rightarrow> valid_value sch v)
        properties)"
| "validate_args (StringSchema minLength d) obj = False"

definition invoke_tool :: "'s ToolDefinition \<Rightarrow> json_object \<Rightarrow> 's \<Rightarrow> (error + json_object) option \<times> 's" where
  "invoke_tool td x s =
     (if validate_args (parameters (function' td)) x
      then
        (let s1 = (case onStart td of None \<Rightarrow> s | Some h \<Rightarrow> h x s);
             (r, s2) = implementation td x s1
         in (case r of
               Inl error \<Rightarrow> (Some (Inl error), s2)
             | Inr result \<Rightarrow>
                 (Some (Inr result),
                  (case onComplete td of None \<Rightarrow> s2 | Some h \<Rightarrow> h x result s2))))
      else (None, s))"

text \<open>The deltas that the engine streams in a run, in order.\<close>

fun streamed :: "engine_call list \<Rightarrow> string list" where
  "streamed [] = []"
| "streamed (OnChunk chunk # cs) = chunk # streamed cs"
| "streamed (_ # cs) = streamed cs"

section \<open>Observing a turn\<close>

text \<open>
  A callback that writes down each call it receives, in order: what a caller can know of
  the calls made to \<open>conversationResponseCallback\<close>.
\<close>

datatype callback_call =
  CallbackCall (message: string) (call_conversationId: string) (isStreaming: bool) (tool: "ToolEvent option")

definition record_call ::
  "string \<Rightarrow> string \<Rightarrow> bool \<Rightarrow> ToolEvent option \<Rightarrow> callback_call list \<Rightarrow> callback_call list" where
  "record_call m cid streaming t log = log @ [CallbackCall m cid streaming t]"

text \<open>
  The arguments of the invocations of the Modification-Queue Tool in an engine run: the
  tool is the third of \<open>tools\<close>.
\<close>

fun queue_requests :: "engine_call list \<Rightarrow> json_object list" where
  "queue_requests [] = []"
| "queue_requests (Implementation i x # cs) =
     (if i = 2 then x # queue_requests cs else queue_requests cs)"
| "queue_requests (_ # cs) = queue_requests cs"

text \<open>The calls that the hooks and the streaming sink of a turn make, for one engine call.\<close>

fun emitted :: "string \<Rightarrow> string \<Rightarrow> string \<Rightarrow> engine_call \<Rightarrow> callback_call list" where
  "emitted cid n0 n1 (OnChunk chunk) = [CallbackCall chunk cid True None]"
| "emitted cid n0 n1 (OnStart i x) =
     (if i < 3
      then [CallbackCall '''' cid False
              (Some \<lparr>tool_name = (if i = 0 then n0 else if i = 1 then n1 else ''queue_request''),
                     status = StatusStart, args = Some x\<rparr>)]
      else [])"
| "emitted cid n0 n1 (OnComplete i x r) =
     (if i < 3
      then [CallbackCall '''' cid False
              (Some \<lparr>tool_name = (if i = 0 then n0 else if i = 1 then n1 else ''queue_request''),
                     status = StatusSuccess, args = Some x\<rparr>)]
      else [])"
| "emitted cid n0 n1 (Implementation i x) = []"

text \<open>Handing a recorded call to a callback.\<close>

fun deliver ::
  "(string \<Rightarrow> string \<Rightarrow> bool \<Rightarrow> ToolEvent option \<Rightarrow> 'w \<Rightarrow> 'w) \<Rightarrow> 'w \<Rightarrow> callback_call \<Rightarrow> 'w" where
  "deliver cb w (CallbackCall m cid streaming t) = cb m cid streaming t w"

section \<open>Example inputs\<close>

text \<open>
  The kind strings as the client script of the repository switches on them
  (\<open>case 'phase_implementing':\<close> and so on).
\<close>

definition wire_names :: WebSocketMessageResponses where
  "wire_names =
     \<lparr>PHASE_IMPLEMENTING = ''phase_implementing'',
      PHASE_IMPLEMENTED = ''phase_implemented'',
      CODE_REVIEW = ''code_review'',
      FILE_REGENERATING = ''file_regenerating'',
      FILE_REGENERATED = ''file_regenerated'',
      DEPLOYMENT_COMPLETED = ''deployment_completed'',
      COMMAND_EXECUTING = ''command_executing''\<rparr>"

definition example_ids :: IdGenerator where
  "example_ids = \<lparr>upcoming = (\<lambda>n. ''conv-'' @ replicate n (CHR ''i'')), issued = 0\<rparr>"

definition example_web :: "unit ToolDefinition" where
  "example_web =
     \<lparr>type = ''function'',
      function' =
        \<lparr>name = ''web_search'',
         description = ''Search the web'',
         parameters = ObjectSchema False [(''query'', StringSchema None ''The search query'')] [''query'']\<rparr>,
      implementation = (\<lambda>x u. (Inr [(''content'', JSString ''results'')], u)),
      onStart = None,
      onComplete = None\<rparr>"

definition example_weather :: "unit ToolDefinition" where
  "example_weather =
     \<lparr>type = ''function'',
      function' =
        \<lparr>name = ''get_weather'',
         description = ''Look up the weather'',
         parameters = ObjectSchema False [(''location'', StringSchema None ''The place'')] [''location'']\<rparr>,
      implementation = (\<lambda>x u. (Inl (Error ''weather service unavailable''), u)),
      onStart = None,
      onComplete = None\<rparr>"

definition example_inputs :: "callback_call list UserConversationInputs" where
  "example_inputs =
     \<lparr>userMessage = ''Please add a dark-mode toggle'',
      pastMessages =
        [\<lparr>role = User, content = ''Hello'', conversationId = ''c-0''\<rparr>,
         \<lparr>role = Assistant, content = ''Hi! How can I help?'', conversationId = ''c-1''\<rparr>],
      conversationResponseCallback = record_call\<rparr>"

definition example_world :: "callback_call list world" where
  "example_world = \<lparr>idGenerator = example_ids, outside = []\<rparr>"

definition example_args :: json_object where
  "example_args = [(''modificationRequest'', JSString ''Add a dark-mode toggle'')]"

definition example_ack :: json_object where
  "example_ack =
     [(''content'',
       JSString ''Modification request queued successfully, will be implemented in the next phase of development.'')]"

text \<open>A turn in which the engine streams, queues one request and streams again.\<close>

definition example_run :: engine_run where
  "example_run =
     \<lparr>calls =
        [OnChunk ''On it. '',
         OnStart 2 example_args,
         Implementation 2 example_args,
         OnComplete 2 example_args example_ack,
         OnChunk ''Queued.''],
      outcome = Inr ''On it. Queued.''\<rparr>"

text \<open>A turn in which the engine queues two requests.\<close>

definition example_run_twice :: engine_run where
  "example_run_twice =
     \<lparr>calls =
        [Implementation 2 [(''modificationRequest'', JSString ''Add A feature'')],
         OnChunk ''Both are queued.'',
         Implementation 2 [(''modificationRequest'', JSString ''Add B feature'')]],
      outcome = Inr ''Both are queued.''\<rparr>"

text \<open>Turns in which the engine throws after it has streamed a delta.\<close>

definition example_run_network_failure :: engine_run where
  "example_run_network_failure =
     \<lparr>calls = [OnChunk ''On it''], outcome = Inl (Error ''network failure'')\<rparr>"

definition example_run_rate_limited :: engine_run where
  "example_run_rate_limited =
     \<lparr>calls = [OnChunk ''On it''], outcome = Inl (RateLimitExceededError ''quota exhausted'')\<rparr>"

text \<open>
  A turn in which the engine streams two deltas and returns a final completion text that
  is not their concatenation.
\<close>

definition example_run_diverging :: engine_run where
  "example_run_diverging =
     \<lparr>calls = [OnChunk ''ab'', OnChunk ''cd''], outcome = Inr ''XY''\<rparr>"

section \<open>Properties of the pipeline-event bridge\<close>

lemma includes_iff: "array_includes xs v \<longleftrightarrow> (\<exists>k. v = JSString k \<and> k \<in> set xs)"
  by (cases v) simp_all

lemma pPU_string:
  "processProjectUpdates (JSString k) data g =
     (Inr [\<lparr>role = Assistant, content = preparedMessage k, conversationId = upcoming g (issued g)\<rparr>],
      g\<lparr>issued := Suc (issued g)\<rparr>)"
  by (simp add: processProjectUpdates_def processProjectUpdates_try_def try_catch_def
      generateConversationId_def)

text \<open>
  C8. \<open>isProjectUpdateType\<close> holds of a value exactly when it is a string that is one of
  the seven kinds of the allow-list. For such a kind, \<open>processProjectUpdates\<close> returns
  exactly one entry; its role is assistant, its content is the fixed memo text around
  the kind name (so the kind name occurs in it), and the entry is the same whatever the
  payload is.
\<close>

theorem isProjectUpdateType_allow_list:
  "(isProjectUpdateType W v \<longleftrightarrow>
      (\<exists>k. v = JSString k \<and>
           k \<in> {PHASE_IMPLEMENTING W, PHASE_IMPLEMENTED W, CODE_REVIEW W, FILE_REGENERATING W,
                FILE_REGENERATED W, DEPLOYMENT_COMPLETED W, COMMAND_EXECUTING W})) \<and>
   length (RelevantProjectUpdateWebsoketMessages W) = 7 \<and>
   (isProjectUpdateType W (JSString k) \<longrightarrow>
      (\<exists>m. fst (processProjectUpdates (JSString k) data g) = Inr [m] \<and>
           role m = Assistant \<and>
           content m =
             ''**<Internal Memo>**'' @ [CHR 0x0A] @ ''Project Updates: '' @ k @ [CHR 0x0A] @
             ''</Internal Memo>'' \<and>
           sublist k (content m) \<and>
           fst (processProjectUpdates (JSString k) data' g) = Inr [m]))"
proof -
  have a: "isProjectUpdateType W v \<longleftrightarrow>
      (\<exists>k. v = JSString k \<and>
           k \<in> {PHASE_IMPLEMENTING W, PHASE_IMPLEMENTED W, CODE_REVIEW W, FILE_REGENERATING W,
                FILE_REGENERATED W, DEPLOYMENT_COMPLETED W, COMMAND_EXECUTING W})"
    by (simp add: isProjectUpdateType_def includes_iff RelevantProjectUpdateWebsoketMessages_def)
  have b: "length (RelevantProjectUpdateWebsoketMessages W) = 7"
    by (simp add: RelevantProjectUpdateWebsoketMessages_def)
  have s: "sublist k (preparedMessage k)"
    unfolding preparedMessage_def sublist_def by (metis append.assoc)
  have c: "\<exists>m. fst (processProjectUpdates (JSString k) data g) = Inr [m] \<and>
           role m = Assistant \<and>
           content m =
             ''**<Internal Memo>**'' @ [CHR 0x0A] @ ''Project Updates: '' @ k @ [CHR 0x0A] @
             ''</Internal Memo>'' \<and>
           sublist k (content m) \<and>
           fst (processProjectUpdates (JSString k) data' g) = Inr [m]"
    using s by (simp add: pPU_string) (simp add: preparedMessage_def)
  from a b c show ?thesis by blast
qed

theorem isProjectUpdateType_allow_list_witness:
  "isProjectUpdateType wire_names (JSString ''code_review'') \<and>
   \<not> isProjectUpdateType wire_names (JSString ''generation_started'') \<and>
   \<not> isProjectUpdateType wire_names JSUndefined \<and>
   (\<exists>m. fst (processProjectUpdates (JSString ''code_review'') (''payload'', True) example_ids) = Inr [m] \<and>
        role m = Assistant \<and>
        content m =
          ''**<Internal Memo>**'' @ [CHR 0x0A] @ ''Project Updates: code_review'' @ [CHR 0x0A] @
          ''</Internal Memo>'' \<and>
        fst (processProjectUpdates (JSString ''code_review'') (0::nat) example_ids) = Inr [m])"
proof -
  have m: "isProjectUpdateType wire_names (JSString ''code_review'')"
    by (simp add: isProjectUpdateType_def RelevantProjectUpdateWebsoketMessages_def wire_names_def)
  have n: "\<not> isProjectUpdateType wire_names (JSString ''generation_started'')"
     "\<not> isProjectUpdateType wire_names JSUndefined"
    by (simp_all add: isProjectUpdateType_def RelevantProjectUpdateWebsoketMessages_def wire_names_def)
  from isProjectUpdateType_allow_list
    [of wire_names JSUndefined "''code_review''" "(''payload'', True)" example_ids "0::nat"] m n
  show ?thesis by auto
qed

text \<open>
  C9. \<open>processProjectUpdates\<close> never throws: for every kind, payload and generator it
  returns a sequence, and whenever its \<open>try\<close> block throws (a kind that is a symbol
  makes the template literal throw) it returns the empty sequence.
\<close>

theorem processProjectUpdates_never_throws:
  "(\<exists>ms. fst (processProjectUpdates updateType data g) = Inr ms) \<and>
   (\<forall>error g'. processProjectUpdates_try updateType data g = (Inl error, g') \<longrightarrow>
      processProjectUpdates updateType data g = (Inr [], g'))"
  by (cases "processProjectUpdates_try updateType data g")
     (auto simp add: processProjectUpdates_def try_catch_def split: sum.splits)

theorem processProjectUpdates_never_throws_witness:
  "processProjectUpdates_try (JSSymbol ''phase'') () example_ids =
     (Inl (TypeError ''Cannot convert a Symbol value to a string''), example_ids) \<and>
   processProjectUpdates (JSSymbol ''phase'') () example_ids = (Inr [], example_ids)"
proof -
  have t: "processProjectUpdates_try (JSSymbol ''phase'') () example_ids =
     (Inl (TypeError ''Cannot convert a Symbol value to a string''), example_ids)"
    by (simp add: processProjectUpdates_try_def)
  with processProjectUpdates_never_throws [of "JSSymbol ''phase''" "()" example_ids]
  show ?thesis by blast
qed

text \<open>
  C10. The payload does not interfere: two runs of \<open>processProjectUpdates\<close> on the same
  kind with any two payloads (of any types) return the same result from the same
  generator, and entries with the same roles and contents from any two generators.
\<close>

theorem processProjectUpdates_payload_independent:
  "processProjectUpdates updateType d1 g = processProjectUpdates updateType d2 g \<and>
   map_sum id (map (\<lambda>m. (role m, content m))) (fst (processProjectUpdates updateType d1 g1)) =
   map_sum id (map (\<lambda>m. (role m, content m))) (fst (processProjectUpdates updateType d2 g2))"
  by (cases "ToString updateType")
     (simp_all add: processProjectUpdates_def processProjectUpdates_try_def try_catch_def
        generateConversationId_def)

theorem processProjectUpdates_payload_independent_witness:
  "map_sum id (map (\<lambda>m. (role m, content m)))
     (fst (processProjectUpdates (JSString ''code_review'') (''files'', [1::nat, 2]) example_ids)) =
   Inr [(Assistant, preparedMessage ''code_review'')] \<and>
   map_sum id (map (\<lambda>m. (role m, content m)))
     (fst (processProjectUpdates (JSString ''code_review'') False (example_ids\<lparr>issued := 5\<rparr>))) =
   Inr [(Assistant, preparedMessage ''code_review'')]"
proof -
  have h: "map_sum id (map (\<lambda>m. (role m, content m)))
     (fst (processProjectUpdates (JSString ''code_review'') False (example_ids\<lparr>issued := 5\<rparr>))) =
   Inr [(Assistant, preparedMessage ''code_review'')]"
    by (simp add: pPU_string)
  note e = processProjectUpdates_payload_independent
    [of "JSString ''code_review''" "(''files'', [1::nat, 2])" example_ids False
        example_ids "example_ids\<lparr>issued := 5\<rparr>", THEN conjunct2]
  show ?thesis by (simp only: e h)
qed

section \<open>Properties of the turn processor\<close>

lemma nth3:
  "i < 3 \<Longrightarrow> [a, b, c] ! i = (if i = 0 then a else if i = 1 then b else c)"
  by (cases i) (auto simp add: nth_Cons' )

lemma streamed_Cons: "streamed (c # cs) = streamed [c] @ streamed cs"
  by (cases c) simp_all

lemma queue_requests_Cons: "queue_requests (c # cs) = queue_requests [c] @ queue_requests cs"
  by (cases c) simp_all

lemma step_fields:
  assumes T: "tools A =
      [attachLifecycle inputs cid (module_tool t0),
       attachLifecycle inputs cid (module_tool t1),
       attachLifecycle inputs cid
         (buildEditAppTool (\<lambda>modificationRequest s. s\<lparr>extractedEnhancedRequest := modificationRequest\<rparr>))]"
    and C: "onChunk A = (\<lambda>chunk s.
              (let s' = s\<lparr>callback_target :=
                           conversationResponseCallback inputs chunk cid True None (callback_target s)\<rparr>
               in s'\<lparr>extractedUserResponse := extractedUserResponse s' @ chunk\<rparr>))"
  shows "callback_target (engine_step A s c) =
           foldl (deliver (conversationResponseCallback inputs)) (callback_target s)
             (emitted cid (name (function' t0)) (name (function' t1)) c)"
    and "extractedUserResponse (engine_step A s c) = extractedUserResponse s @ concat (streamed [c])"
    and "extractedEnhancedRequest (engine_step A s c) =
           (if queue_requests [c] = [] then extractedEnhancedRequest s
            else property (last (queue_requests [c])) ''modificationRequest'')"
proof -
  show "callback_target (engine_step A s c) =
           foldl (deliver (conversationResponseCallback inputs)) (callback_target s)
             (emitted cid (name (function' t0)) (name (function' t1)) c)"
    by (cases c) (simp_all add: T C nth3 attachLifecycle_def module_tool_def buildEditAppTool_def Let_def)
  show "extractedUserResponse (engine_step A s c) = extractedUserResponse s @ concat (streamed [c])"
    by (cases c) (simp_all add: T C nth3 attachLifecycle_def module_tool_def buildEditAppTool_def Let_def)
  show "extractedEnhancedRequest (engine_step A s c) =
           (if queue_requests [c] = [] then extractedEnhancedRequest s
            else property (last (queue_requests [c])) ''modificationRequest'')"
    by (cases c) (simp_all add: T C nth3 attachLifecycle_def module_tool_def buildEditAppTool_def Let_def)
qed

lemma run_fields:
  assumes T: "tools A =
      [attachLifecycle inputs cid (module_tool t0),
       attachLifecycle inputs cid (module_tool t1),
       attachLifecycle inputs cid
         (buildEditAppTool (\<lambda>modificationRequest s. s\<lparr>extractedEnhancedRequest := modificationRequest\<rparr>))]"
    and C: "onChunk A = (\<lambda>chunk s.
              (let s' = s\<lparr>callback_target :=
                           conversationResponseCallback inputs chunk cid True None (callback_target s)\<rparr>
               in s'\<lparr>extractedUserResponse := extractedUserResponse s' @ chunk\<rparr>))"
  shows "callback_target (foldl (engine_step A) s cs) =
           foldl (deliver (conversationResponseCallback inputs)) (callback_target s)
             (concat (map (emitted cid (name (function' t0)) (name (function' t1))) cs))"
    and "extractedUserResponse (foldl (engine_step A) s cs) =
           extractedUserResponse s @ concat (streamed cs)"
    and "extractedEnhancedRequest (foldl (engine_step A) s cs) =
           (if queue_requests cs = [] then extractedEnhancedRequest s
            else property (last (queue_requests cs)) ''modificationRequest'')"
proof (induction cs arbitrary: s)
  case Nil
  { case 1 show ?case by simp }
  { case 2 show ?case by simp }
  { case 3 show ?case by simp }
next
  case (Cons c cs)
  { case 1 show ?case by (simp add: Cons.IH(1) step_fields(1)[OF T C] del: engine_step.simps) }
  { case 2 show ?case
      by (simp add: Cons.IH(2) step_fields(2)[OF T C] streamed_Cons[of c cs] del: engine_step.simps) }
  { case 3 show ?case
      by (simp add: Cons.IH(3) step_fields(3)[OF T C] queue_requests_Cons[of c cs]
          del: engine_step.simps) }
qed

lemma deliver_record_call_step: "deliver record_call log c = log @ [c]"
  by (cases c) (simp add: record_call_def)

lemma deliver_record_call: "foldl (deliver record_call) log cs = log @ cs"
  by (induction cs arbitrary: log) (simp_all add: deliver_record_call_step)

lemma execute_try_Inl: "execute_try run (Inl e) t0 t1 inputs w = (Inl e, w)"
  by (simp add: execute_try_def)

lemma execute_try_Inr:
  "execute_try run (Inr sp) t0 t1 inputs w =
     (case outcome run of
        Inl error \<Rightarrow>
          (Inl error,
           \<lparr>idGenerator = (idGenerator w)\<lparr>issued := Suc (Suc (issued (idGenerator w)))\<rparr>,
            outside =
              foldl (deliver (conversationResponseCallback inputs)) (outside w)
                (concat (map (emitted (upcoming (idGenerator w) (Suc (issued (idGenerator w))))
                                (name (function' t0)) (name (function' t1))) (calls run)))\<rparr>)
      | Inr final \<Rightarrow>
          (Inr \<lparr>conversationResponse =
                  \<lparr>enhancedUserRequest =
                     (if queue_requests (calls run) = [] then JSString ''''
                      else property (last (queue_requests (calls run))) ''modificationRequest''),
                   userResponse = concat (streamed (calls run))\<rparr>,
                messages = pastMessages inputs @
                  [\<lparr>role = User, content = userMessage inputs,
                    conversationId = upcoming (idGenerator w) (issued (idGenerator w))\<rparr>,
                   \<lparr>role = Assistant, content = final,
                    conversationId = upcoming (idGenerator w) (Suc (Suc (issued (idGenerator w))))\<rparr>]\<rparr>,
           \<lparr>idGenerator = (idGenerator w)\<lparr>issued := Suc (Suc (Suc (issued (idGenerator w))))\<rparr>,
            outside =
              foldl (deliver (conversationResponseCallback inputs)) (outside w)
                (concat (map (emitted (upcoming (idGenerator w) (Suc (issued (idGenerator w))))
                                (name (function' t0)) (name (function' t1))) (calls run)))\<rparr>))"
proof -
  let ?g = "idGenerator w"
  let ?cid = "upcoming ?g (Suc (issued ?g))"
  define A :: "'a turn_state InferenceArgs" where
    "A = \<lparr>inference_messages = sp @ map Message.truncate (pastMessages inputs @
             [with_conversationId (createUserMessage (userMessage inputs)) (upcoming ?g (issued ?g))]),
          agentActionName = ''conversationalResponse'',
          tools =
            [attachLifecycle inputs ?cid (module_tool t0),
             attachLifecycle inputs ?cid (module_tool t1),
             attachLifecycle inputs ?cid
               (buildEditAppTool (\<lambda>modificationRequest s.
                  s\<lparr>extractedEnhancedRequest := modificationRequest\<rparr>))],
          onChunk = (\<lambda>chunk s.
            (let s' = s\<lparr>callback_target :=
                         conversationResponseCallback inputs chunk ?cid True None (callback_target s)\<rparr>
             in s'\<lparr>extractedUserResponse := extractedUserResponse s' @ chunk\<rparr>)),
          chunk_size = CHUNK_SIZE\<rparr>"
  define s0 :: "'a turn_state" where
    "s0 = \<lparr>extractedUserResponse = '''', extractedEnhancedRequest = JSString '''',
           callback_target = outside w\<rparr>"
  have T: "tools A =
      [attachLifecycle inputs ?cid (module_tool t0),
       attachLifecycle inputs ?cid (module_tool t1),
       attachLifecycle inputs ?cid
         (buildEditAppTool (\<lambda>modificationRequest s. s\<lparr>extractedEnhancedRequest := modificationRequest\<rparr>))]"
    by (simp add: A_def)
  have C: "onChunk A = (\<lambda>chunk s.
              (let s' = s\<lparr>callback_target :=
                           conversationResponseCallback inputs chunk ?cid True None (callback_target s)\<rparr>
               in s'\<lparr>extractedUserResponse := extractedUserResponse s' @ chunk\<rparr>))"
    by (simp add: A_def)
  let ?s = "foldl (engine_step A) s0 (calls run)"
  have e: "execute_try run (Inr sp) t0 t1 inputs w =
     (case outcome run of
        Inl error \<Rightarrow>
          (Inl error,
           \<lparr>idGenerator = ?g\<lparr>issued := Suc (Suc (issued ?g))\<rparr>, outside = callback_target ?s\<rparr>)
      | Inr final \<Rightarrow>
          (Inr \<lparr>conversationResponse =
                  \<lparr>enhancedUserRequest = extractedEnhancedRequest ?s,
                   userResponse = extractedUserResponse ?s\<rparr>,
                messages = pastMessages inputs @
                  [\<lparr>role = User, content = userMessage inputs, conversationId = upcoming ?g (issued ?g)\<rparr>,
                   \<lparr>role = Assistant, content = final,
                    conversationId = upcoming ?g (Suc (Suc (issued ?g)))\<rparr>]\<rparr>,
           \<lparr>idGenerator = ?g\<lparr>issued := Suc (Suc (Suc (issued ?g)))\<rparr>, outside = callback_target ?s\<rparr>))"
    by (simp add: execute_try_def executeInference_def generateConversationId_def A_def s0_def
        Let_def with_conversationId_def createUserMessage_def createAssistantMessage_def
        split: sum.splits)
  show ?thesis
    by (simp add: e run_fields[OF T C] s0_def split: sum.splits)
qed

lemma execute_unfold:
  "execute run spr t0 t1 inputs w =
     (case execute_try run spr t0 t1 inputs w of
        (Inl e, w') \<Rightarrow> execute_catch inputs e w'
      | (Inr r, w') \<Rightarrow> (Inr r, w'))"
  by (simp add: execute_def try_catch_def)

lemma execute_catch_fatal:
  "instanceof_RateLimitExceededError e \<or> instanceof_SecurityError e \<Longrightarrow>
   execute_catch inputs e w = (Inl e, w)"
  by (simp add: execute_catch_def)

lemma execute_catch_fallback:
  "\<not> instanceof_RateLimitExceededError e \<Longrightarrow> \<not> instanceof_SecurityError e \<Longrightarrow>
   execute_catch inputs e w =
     (Inr \<lparr>conversationResponse =
             \<lparr>enhancedUserRequest = JSString (''User request: '' @ userMessage inputs),
              userResponse = FALLBACK_USER_RESPONSE\<rparr>,
           messages = pastMessages inputs @
             [\<lparr>role = User, content = userMessage inputs,
               conversationId = upcoming (idGenerator w) (issued (idGenerator w))\<rparr>,
              \<lparr>role = Assistant, content = FALLBACK_USER_RESPONSE,
               conversationId = upcoming (idGenerator w) (Suc (issued (idGenerator w)))\<rparr>]\<rparr>,
      w\<lparr>idGenerator := (idGenerator w)\<lparr>issued := Suc (Suc (issued (idGenerator w)))\<rparr>\<rparr>)"
  by (simp add: execute_catch_def generateConversationId_def with_conversationId_def
      createUserMessage_def createAssistantMessage_def)

lemma execute_try_throws:
  "fst (execute_try run spr t0 t1 inputs w) = Inl e \<longleftrightarrow>
     spr = Inl e \<or> (\<exists>sp. spr = Inr sp) \<and> outcome run = Inl e"
  by (cases spr; cases "outcome run") (auto simp add: execute_try_Inl execute_try_Inr)

lemma streaming_emitted_step:
  "map message (filter isStreaming (emitted cid n0 n1 c)) = streamed [c]"
  by (cases c) simp_all

lemma streaming_emitted:
  "concat (map message (filter isStreaming (concat (map (emitted cid n0 n1) cs)))) =
   concat (streamed cs)"
proof (induction cs)
  case Nil
  show ?case by simp
next
  case (Cons c cs)
  have "concat (map message (filter isStreaming (concat (map (emitted cid n0 n1) (c # cs))))) =
        concat (streamed [c]) @ concat (streamed cs)"
    by (simp add: streaming_emitted_step Cons.IH del: streamed.simps)
  then show ?case by (simp add: streamed_Cons [of c cs] del: streamed.simps)
qed

lemma emitted_status:
  "c \<in> set (emitted cid n0 n1 x) \<Longrightarrow> tool c = Some ev \<Longrightarrow>
   status ev \<noteq> StatusError \<and> message c = '''' \<and> \<not> isStreaming c"
  by (cases x) (auto split: if_splits)

lemma execute_try_outside:
  "\<exists>cid n0 n1 cs. outside (snd (execute_try run spr t0 t1 inputs w)) =
     foldl (deliver (conversationResponseCallback inputs)) (outside w)
       (concat (map (emitted cid n0 n1) cs))"
proof (cases spr)
  case (Inl e)
  have "outside (snd (execute_try run spr t0 t1 inputs w)) =
     foldl (deliver (conversationResponseCallback inputs)) (outside w)
       (concat (map (emitted [] [] []) []))"
    by (simp add: Inl execute_try_Inl)
  then show ?thesis by blast
next
  case (Inr sp)
  have "outside (snd (execute_try run spr t0 t1 inputs w)) =
     foldl (deliver (conversationResponseCallback inputs)) (outside w)
       (concat (map (emitted (upcoming (idGenerator w) (Suc (issued (idGenerator w))))
                                (name (function' t0)) (name (function' t1))) (calls run)))"
    by (cases "outcome run") (simp_all add: Inr execute_try_Inr)
  then show ?thesis by blast
qed

lemma execute_catch_outside: "outside (snd (execute_catch inputs e w)) = outside w"
  by (simp add: execute_catch_def generateConversationId_def Let_def split: prod.splits)

lemma execute_outside:
  "outside (snd (execute run spr t0 t1 inputs w)) =
   outside (snd (execute_try run spr t0 t1 inputs w))"
proof (cases "execute_try run spr t0 t1 inputs w")
  case (Pair r w')
  then show ?thesis
    by (cases r) (simp_all add: execute_unfold execute_catch_outside)
qed

text \<open>
  C1. Whenever \<open>execute\<close> returns an output, on the success path as on the fallback
  path and whatever calls the engine made, \<open>messages\<close> is \<open>pastMessages\<close>, unchanged
  and in order, followed by exactly two new entries: a user entry with the user's
  message, then an assistant entry. So its length is that of \<open>pastMessages\<close> plus 2.
\<close>

theorem execute_appends_user_then_assistant:
  assumes "fst (execute run systemPromptsResult t0 t1 inputs w) = Inr out"
  shows "\<exists>u a. messages out = pastMessages inputs @ [u, a] \<and>
           role u = User \<and> content u = userMessage inputs \<and> role a = Assistant \<and>
           length (messages out) = length (pastMessages inputs) + 2"
proof (cases "execute_try run systemPromptsResult t0 t1 inputs w")
  case (Pair r w')
  show ?thesis
  proof (cases r)
    case (Inl e)
    with Pair assms have c: "fst (execute_catch inputs e w') = Inr out"
      by (simp add: execute_unfold)
    then have "\<not> instanceof_RateLimitExceededError e" "\<not> instanceof_SecurityError e"
      by (auto simp add: execute_catch_fatal)
    from execute_catch_fallback [OF this, of inputs w'] c show ?thesis by auto
  next
    case (Inr r')
    with Pair assms have o: "r' = out" by (simp add: execute_unfold)
    from Pair Inr obtain sp final where "systemPromptsResult = Inr sp" "outcome run = Inr final"
      by (cases systemPromptsResult; cases "outcome run")
         (auto simp add: execute_try_Inl execute_try_Inr)
    with Pair Inr o show ?thesis by (auto simp add: execute_try_Inr)
  qed
qed

theorem execute_appends_user_then_assistant_witness:
  "(\<exists>out. fst (execute example_run (Inr []) example_web example_weather example_inputs example_world) = Inr out \<and>
      length (messages out) = 4 \<and>
      (\<exists>u a. messages out = pastMessages example_inputs @ [u, a] \<and> role u = User \<and> role a = Assistant)) \<and>
   (\<exists>out. fst (execute example_run_network_failure (Inr []) example_web example_weather example_inputs
               example_world) = Inr out \<and>
      length (messages out) = 4 \<and>
      (\<exists>u a. messages out = pastMessages example_inputs @ [u, a] \<and> role u = User \<and> role a = Assistant))"
proof -
  obtain out1 where o1:
    "fst (execute example_run (Inr []) example_web example_weather example_inputs example_world) = Inr out1"
    by (simp add: execute_unfold execute_try_Inr example_run_def)
  obtain out2 where o2:
    "fst (execute example_run_network_failure (Inr []) example_web example_weather example_inputs
            example_world) = Inr out2"
    by (simp add: execute_unfold execute_try_Inr example_run_network_failure_def execute_catch_fallback)
  have l: "length (pastMessages example_inputs) + 2 = 4" by (simp add: example_inputs_def)
  from execute_appends_user_then_assistant [OF o1] execute_appends_user_then_assistant [OF o2] o1 o2 l
  show ?thesis by (simp only:) blast
qed

text \<open>
  C2, as amended. On the success path (the \<open>try\<close> block returns), with a callback that
  records its calls: the texts of the calls made with \<open>isStreaming = true\<close> during the
  turn, concatenated in the order of the calls, are \<open>userResponse\<close>, which is the
  concatenation of the deltas the engine streamed. The appended assistant entry stores
  \<open>result.string\<close>, the final completion text that the engine returned.
  (\<open>execute\<close> takes the two texts from different places and does not compare them:
  see the counterexample below.)
\<close>

theorem streamed_chunks_are_userResponse:
  assumes cb: "conversationResponseCallback inputs = record_call"
    and ok: "execute_try run systemPromptsResult t0 t1 inputs w = (Inr out, w')"
  shows "execute run systemPromptsResult t0 t1 inputs w = (Inr out, w') \<and>
         (\<exists>new. outside w' = outside w @ new \<and>
            concat (map message (filter isStreaming new)) = userResponse (conversationResponse out)) \<and>
         userResponse (conversationResponse out) = concat (streamed (calls run)) \<and>
         outcome run = Inr (content (last (messages out)))"
proof -
  from ok obtain sp final where sp: "systemPromptsResult = Inr sp" and fin: "outcome run = Inr final"
    by (cases systemPromptsResult; cases "outcome run")
       (auto simp add: execute_try_Inl execute_try_Inr)
  let ?new = "concat (map (emitted (upcoming (idGenerator w) (Suc (issued (idGenerator w))))
                                (name (function' t0)) (name (function' t1))) (calls run))"
  from ok sp fin have ur: "userResponse (conversationResponse out) = concat (streamed (calls run))"
    and la: "content (last (messages out)) = final"
    and ou: "outside w' = outside w @ ?new"
    by (auto simp add: execute_try_Inr cb deliver_record_call)
  have a: "execute run systemPromptsResult t0 t1 inputs w = (Inr out, w')"
    by (simp add: execute_unfold ok)
  have b: "\<exists>new. outside w' = outside w @ new \<and>
            concat (map message (filter isStreaming new)) = userResponse (conversationResponse out)"
    by (rule exI [of _ ?new]) (simp add: ou ur streaming_emitted)
  have c: "outcome run = Inr (content (last (messages out)))"
    by (simp add: fin la)
  from a b ur c show ?thesis by blast
qed

theorem streamed_chunks_are_userResponse_witness:
  "conversationResponseCallback example_inputs = record_call \<and>
   (\<exists>out w'. execute example_run (Inr []) example_web example_weather example_inputs example_world =
        (Inr out, w') \<and>
      concat (map message (filter isStreaming (outside w'))) = ''On it. Queued.'' \<and>
      userResponse (conversationResponse out) = ''On it. Queued.'' \<and>
      content (last (messages out)) = ''On it. Queued.'')"
proof -
  have cb: "conversationResponseCallback example_inputs = record_call"
    by (simp add: example_inputs_def)
  have oc: "outcome example_run = Inr ''On it. Queued.''"
    by (simp add: example_run_def)
  have st: "concat (streamed (calls example_run)) = ''On it. Queued.''"
    by (simp add: example_run_def)
  have ow: "outside example_world = []"
    by (simp add: example_world_def)
  obtain out w' where t:
    "execute_try example_run (Inr []) example_web example_weather example_inputs example_world =
       (Inr out, w')"
    by (simp add: execute_try_Inr example_run_def)
  from streamed_chunks_are_userResponse [OF cb t] oc st ow
  have "execute example_run (Inr []) example_web example_weather example_inputs example_world =
        (Inr out, w') \<and>
      concat (map message (filter isStreaming (outside w'))) = ''On it. Queued.'' \<and>
      userResponse (conversationResponse out) = ''On it. Queued.'' \<and>
      content (last (messages out)) = ''On it. Queued.''"
    by auto
  with cb show ?thesis by blast
qed

text \<open>
  The claim C2 as it is written fails where the engine's final completion text is not
  the concatenation of its deltas: on the success path the streamed texts and
  \<open>userResponse\<close> are \<open>abcd\<close>, and the assistant entry holds \<open>XY\<close>.
\<close>

theorem userResponse_differs_from_final_text_counterexample:
  "execute example_run_diverging (Inr []) example_web example_weather example_inputs example_world =
     (Inr \<lparr>conversationResponse =
             \<lparr>enhancedUserRequest = JSString '''', userResponse = ''abcd''\<rparr>,
           messages =
             [\<lparr>role = User, content = ''Hello'', conversationId = ''c-0''\<rparr>,
              \<lparr>role = Assistant, content = ''Hi! How can I help?'', conversationId = ''c-1''\<rparr>,
              \<lparr>role = User, content = ''Please add a dark-mode toggle'', conversationId = ''conv-''\<rparr>,
              \<lparr>role = Assistant, content = ''XY'', conversationId = ''conv-ii''\<rparr>]\<rparr>,
      \<lparr>idGenerator = example_ids\<lparr>issued := 3\<rparr>,
       outside =
         [CallbackCall ''ab'' ''conv-i'' True None,
          CallbackCall ''cd'' ''conv-i'' True None]\<rparr>) \<and>
   concat (map message (filter isStreaming
     [CallbackCall ''ab'' ''conv-i'' True None,
      CallbackCall ''cd'' ''conv-i'' True None])) = ''abcd'' \<and>
   outcome example_run_diverging = Inr ''XY'' \<and>
   ''abcd'' \<noteq> ''XY''"
  by (simp add: execute_unfold execute_try_Inr example_run_diverging_def example_inputs_def
      example_world_def example_ids_def record_call_def numeral_3_eq_3)

text \<open>
  C3. If the engine call throws a \<open>RateLimitExceededError\<close> or a \<open>SecurityError\<close>,
  \<open>execute\<close> throws that same error and returns no output. These are the only
  errors that leave \<open>execute\<close>: whatever it throws is an error of one of the two
  classes, and is the error that the \<open>try\<close> block threw.
\<close>

theorem fatal_errors_are_rethrown:
  "(outcome run = Inl e \<and> (instanceof_RateLimitExceededError e \<or> instanceof_SecurityError e) \<longrightarrow>
      fst (execute run (Inr systemPrompts) t0 t1 inputs w) = Inl e) \<and>
   (fst (execute run systemPromptsResult t0 t1 inputs w) = Inl e' \<longrightarrow>
      (instanceof_RateLimitExceededError e' \<or> instanceof_SecurityError e') \<and>
      fst (execute_try run systemPromptsResult t0 t1 inputs w) = Inl e')"
proof (rule conjI; rule impI)
  assume "outcome run = Inl e \<and> (instanceof_RateLimitExceededError e \<or> instanceof_SecurityError e)"
  then show "fst (execute run (Inr systemPrompts) t0 t1 inputs w) = Inl e"
    by (simp add: execute_unfold execute_try_Inr execute_catch_fatal)
next
  assume a: "fst (execute run systemPromptsResult t0 t1 inputs w) = Inl e'"
  obtain r w' where p: "execute_try run systemPromptsResult t0 t1 inputs w = (r, w')"
    by (cases "execute_try run systemPromptsResult t0 t1 inputs w")
  from a p obtain e0 where r: "r = Inl e0" and c: "fst (execute_catch inputs e0 w') = Inl e'"
    by (cases r) (auto simp add: execute_unfold)
  have f: "instanceof_RateLimitExceededError e0 \<or> instanceof_SecurityError e0"
  proof (rule ccontr)
    assume "\<not> ?thesis"
    then have "\<not> instanceof_RateLimitExceededError e0" "\<not> instanceof_SecurityError e0" by auto
    from execute_catch_fallback [OF this, of inputs w'] c show False by simp
  qed
  with c have "e' = e0" by (simp add: execute_catch_fatal)
  with f r p
  show "(instanceof_RateLimitExceededError e' \<or> instanceof_SecurityError e') \<and>
      fst (execute_try run systemPromptsResult t0 t1 inputs w) = Inl e'"
    by simp
qed

theorem fatal_errors_are_rethrown_witness:
  "outcome example_run_rate_limited = Inl (RateLimitExceededError ''quota exhausted'') \<and>
   instanceof_RateLimitExceededError (RateLimitExceededError ''quota exhausted'') \<and>
   fst (execute example_run_rate_limited (Inr []) example_web example_weather example_inputs
          example_world) = Inl (RateLimitExceededError ''quota exhausted'')"
proof -
  have o: "outcome example_run_rate_limited = Inl (RateLimitExceededError ''quota exhausted'')"
    by (simp add: example_run_rate_limited_def)
  from fatal_errors_are_rethrown
    [of example_run_rate_limited "RateLimitExceededError ''quota exhausted''" "[]"
        example_web example_weather example_inputs example_world "Inr []"] o
  show ?thesis by simp
qed

text \<open>
  C4. If the prompt assembly or the engine call throws an error that is neither a
  \<open>RateLimitExceededError\<close> nor a \<open>SecurityError\<close>, \<open>execute\<close> returns the fallback
  output: \<open>enhancedUserRequest\<close> is \<open>"User request: "\<close> followed by the user's message,
  \<open>userResponse\<close> is the fixed fallback text, and \<open>messages\<close> is \<open>pastMessages\<close>
  followed by a user entry and an assistant entry with the fallback text.
\<close>

theorem other_errors_fall_back:
  assumes "systemPromptsResult = Inl e \<or> (\<exists>sp. systemPromptsResult = Inr sp) \<and> outcome run = Inl e"
    and "\<not> instanceof_RateLimitExceededError e" and "\<not> instanceof_SecurityError e"
  shows "\<exists>c1 c2. fst (execute run systemPromptsResult t0 t1 inputs w) =
           Inr \<lparr>conversationResponse =
                  \<lparr>enhancedUserRequest = JSString (''User request: '' @ userMessage inputs),
                   userResponse = FALLBACK_USER_RESPONSE\<rparr>,
                messages = pastMessages inputs @
                  [\<lparr>role = User, content = userMessage inputs, conversationId = c1\<rparr>,
                   \<lparr>role = Assistant, content = FALLBACK_USER_RESPONSE, conversationId = c2\<rparr>]\<rparr>"
proof -
  from assms(1) have "fst (execute_try run systemPromptsResult t0 t1 inputs w) = Inl e"
    by (simp add: execute_try_throws)
  then obtain w' where "execute_try run systemPromptsResult t0 t1 inputs w = (Inl e, w')"
    by (cases "execute_try run systemPromptsResult t0 t1 inputs w") simp
  then show ?thesis
    by (simp add: execute_unfold execute_catch_fallback [OF assms(2,3)])
qed

theorem other_errors_fall_back_witness:
  "outcome example_run_network_failure = Inl (Error ''network failure'') \<and>
   \<not> instanceof_RateLimitExceededError (Error ''network failure'') \<and>
   \<not> instanceof_SecurityError (Error ''network failure'') \<and>
   (\<exists>c1 c2. fst (execute example_run_network_failure (Inr []) example_web example_weather
                   example_inputs example_world) =
      Inr \<lparr>conversationResponse =
             \<lparr>enhancedUserRequest = JSString ''User request: Please add a dark-mode toggle'',
              userResponse = FALLBACK_USER_RESPONSE\<rparr>,
           messages =
             [\<lparr>role = User, content = ''Hello'', conversationId = ''c-0''\<rparr>,
              \<lparr>role = Assistant, content = ''Hi! How can I help?'', conversationId = ''c-1''\<rparr>,
              \<lparr>role = User, content = ''Please add a dark-mode toggle'', conversationId = c1\<rparr>,
              \<lparr>role = Assistant, content = FALLBACK_USER_RESPONSE, conversationId = c2\<rparr>]\<rparr>)"
proof -
  have o: "Inr [] = Inl (Error ''network failure'') \<or>
      (\<exists>sp. (Inr [] :: error + Message list) = Inr sp) \<and>
      outcome example_run_network_failure = Inl (Error ''network failure'')"
    by (simp add: example_run_network_failure_def)
  have n: "\<not> instanceof_RateLimitExceededError (Error ''network failure'')"
    "\<not> instanceof_SecurityError (Error ''network failure'')"
    by simp_all
  from other_errors_fall_back [OF o n, of example_web example_weather example_inputs example_world] o
  show ?thesis by (simp add: example_inputs_def)
qed

text \<open>
  C5, as amended. On the success path, \<open>enhancedUserRequest\<close> is the empty string if the
  engine never invoked the Modification-Queue Tool, the \<open>modificationRequest\<close> of the
  call if it invoked it once, and the \<open>modificationRequest\<close> of the last call after any
  number of calls. (On the fallback path it is \<open>"User request: "\<close> followed by the
  user's message, whatever the engine invoked: see the counterexample below.)
\<close>

theorem enhancedUserRequest_last_write_wins:
  assumes ok: "fst (execute_try run systemPromptsResult t0 t1 inputs w) = Inr out"
  shows "fst (execute run systemPromptsResult t0 t1 inputs w) = Inr out \<and>
         (queue_requests (calls run) = [] \<longrightarrow>
            enhancedUserRequest (conversationResponse out) = JSString '''') \<and>
         (\<forall>x. queue_requests (calls run) = [x] \<longrightarrow>
            enhancedUserRequest (conversationResponse out) = property x ''modificationRequest'') \<and>
         (\<forall>xs x. queue_requests (calls run) = xs @ [x] \<longrightarrow>
            enhancedUserRequest (conversationResponse out) = property x ''modificationRequest'')"
proof -
  from ok obtain sp final where sp: "systemPromptsResult = Inr sp" and fin: "outcome run = Inr final"
    by (cases systemPromptsResult; cases "outcome run")
       (auto simp add: execute_try_Inl execute_try_Inr)
  from ok sp fin have e: "enhancedUserRequest (conversationResponse out) =
      (if queue_requests (calls run) = [] then JSString ''''
       else property (last (queue_requests (calls run))) ''modificationRequest'')"
    by (auto simp add: execute_try_Inr)
  obtain r w' where p: "execute_try run systemPromptsResult t0 t1 inputs w = (r, w')"
    by (cases "execute_try run systemPromptsResult t0 t1 inputs w")
  with ok have a: "fst (execute run systemPromptsResult t0 t1 inputs w) = Inr out"
    by (simp add: execute_unfold)
  from a e show ?thesis by simp
qed

theorem enhancedUserRequest_last_write_wins_witness:
  "(\<exists>out. fst (execute example_run (Inr []) example_web example_weather example_inputs example_world) = Inr out \<and>
      queue_requests (calls example_run) = [example_args] \<and>
      enhancedUserRequest (conversationResponse out) = JSString ''Add a dark-mode toggle'') \<and>
   (\<exists>out. fst (execute example_run_twice (Inr []) example_web example_weather example_inputs example_world) = Inr out \<and>
      queue_requests (calls example_run_twice) =
        [[(''modificationRequest'', JSString ''Add A feature'')],
         [(''modificationRequest'', JSString ''Add B feature'')]] \<and>
      enhancedUserRequest (conversationResponse out) = JSString ''Add B feature'')"
proof -
  obtain out1 where o1:
    "fst (execute_try example_run (Inr []) example_web example_weather example_inputs example_world) = Inr out1"
    by (simp add: execute_try_Inr example_run_def)
  obtain out2 where o2:
    "fst (execute_try example_run_twice (Inr []) example_web example_weather example_inputs example_world) = Inr out2"
    by (simp add: execute_try_Inr example_run_twice_def)
  have q1: "queue_requests (calls example_run) = [example_args]"
    by (simp add: example_run_def)
  have q2: "queue_requests (calls example_run_twice) =
        [[(''modificationRequest'', JSString ''Add A feature'')]] @
        [[(''modificationRequest'', JSString ''Add B feature'')]]"
    by (simp add: example_run_twice_def)
  have p1: "property example_args ''modificationRequest'' = JSString ''Add a dark-mode toggle''"
    by (simp add: property_def example_args_def)
  have p2: "property [(''modificationRequest'', JSString ''Add B feature'')] ''modificationRequest'' =
      JSString ''Add B feature''"
    by (simp add: property_def)
  from enhancedUserRequest_last_write_wins [OF o1] q1 p1
  have a: "fst (execute example_run (Inr []) example_web example_weather example_inputs example_world) = Inr out1 \<and>
      queue_requests (calls example_run) = [example_args] \<and>
      enhancedUserRequest (conversationResponse out1) = JSString ''Add a dark-mode toggle''"
    by simp
  from enhancedUserRequest_last_write_wins [OF o2] q2 p2
  have b: "fst (execute example_run_twice (Inr []) example_web example_weather example_inputs example_world) = Inr out2 \<and>
      enhancedUserRequest (conversationResponse out2) = JSString ''Add B feature''"
    by simp
  from a b q2 show ?thesis by auto
qed

text \<open>
  The claim C5 as it is written, for any turn, fails on the fallback path: here the
  engine throws a network failure without having invoked the tool, and
  \<open>enhancedUserRequest\<close> is not the empty string.
\<close>

theorem enhancedUserRequest_fallback_counterexample:
  "queue_requests (calls example_run_network_failure) = [] \<and>
   fst (execute example_run_network_failure (Inr []) example_web example_weather example_inputs
          example_world) =
     Inr \<lparr>conversationResponse =
            \<lparr>enhancedUserRequest = JSString ''User request: Please add a dark-mode toggle'',
             userResponse = FALLBACK_USER_RESPONSE\<rparr>,
          messages =
            [\<lparr>role = User, content = ''Hello'', conversationId = ''c-0''\<rparr>,
             \<lparr>role = Assistant, content = ''Hi! How can I help?'', conversationId = ''c-1''\<rparr>,
             \<lparr>role = User, content = ''Please add a dark-mode toggle'', conversationId = ''conv-ii''\<rparr>,
             \<lparr>role = Assistant, content = FALLBACK_USER_RESPONSE, conversationId = ''conv-iii''\<rparr>]\<rparr> \<and>
   enhancedUserRequest (conversationResponse (projr (fst
     (execute example_run_network_failure (Inr []) example_web example_weather example_inputs
        example_world)))) \<noteq> JSString ''''"
  by (simp add: execute_unfold execute_try_Inr example_run_network_failure_def execute_catch_fallback
      example_inputs_def example_world_def example_ids_def numeral_2_eq_2)

text \<open>
  C6. For every mutator, \<open>buildEditAppTool\<close> gives a tool named \<open>queue_request\<close>; its
  parameter schema is an object schema with the single property
  \<open>modificationRequest\<close>, a string of minimum length 8, which is required, and with no
  additional properties allowed; its implementation, on every argument object, calls
  the mutator with \<open>args.modificationRequest\<close> and returns the fixed acknowledgment.
  Under schema validation, the accepted argument objects are those whose only key is
  \<open>modificationRequest\<close> with a string of at least 8 characters; a call with a shorter
  string is rejected and leaves the state as it was (the mutator does not run).
\<close>

theorem buildEditAppTool_contract:
  "name (function' (buildEditAppTool stateMutator)) = ''queue_request'' \<and>
   (\<exists>d. parameters (function' (buildEditAppTool stateMutator)) =
      ObjectSchema False [(''modificationRequest'', StringSchema (Some 8) d)] [''modificationRequest'']) \<and>
   implementation (buildEditAppTool stateMutator) x s =
     (Inr [(''content'',
            JSString ''Modification request queued successfully, will be implemented in the next phase of development.'')],
      stateMutator (property x ''modificationRequest'') s) \<and>
   (validate_args (parameters (function' (buildEditAppTool stateMutator))) x \<longleftrightarrow>
      x \<noteq> [] \<and> set (map fst x) = {''modificationRequest''} \<and>
      (\<exists>r. property x ''modificationRequest'' = JSString r \<and> 8 \<le> length r)) \<and>
   (property x ''modificationRequest'' = JSString r \<and> length r < 8 \<longrightarrow>
      invoke_tool (buildEditAppTool stateMutator) x s = (None, s))"
proof -
  let ?P = "parameters (function' (buildEditAppTool stateMutator))"
  have v: "validate_args ?P x \<longleftrightarrow>
      x \<noteq> [] \<and> set (map fst x) = {''modificationRequest''} \<and>
      (\<exists>r. property x ''modificationRequest'' = JSString r \<and> 8 \<le> length r)"
  proof (cases "map_of x ''modificationRequest''")
    case None
    then show ?thesis
      by (auto simp add: buildEditAppTool_def property_def)
  next
    case (Some v)
    then have ne: "x \<noteq> []" by auto
    from Some have k: "''modificationRequest'' \<in> fst ` set x" by (force dest: map_of_SomeD)
    show ?thesis
      using Some ne k
      by (cases v) (auto simp add: buildEditAppTool_def property_def list_all_iff)
  qed
  have rj: "property x ''modificationRequest'' = JSString r \<and> length r < 8 \<longrightarrow>
      invoke_tool (buildEditAppTool stateMutator) x s = (None, s)"
    using v by (auto simp add: invoke_tool_def)
  show ?thesis using v rj by (simp add: buildEditAppTool_def)
qed

theorem buildEditAppTool_contract_witness:
  "property [(''modificationRequest'', JSString ''dark'')] ''modificationRequest'' = JSString ''dark'' \<and>
   length ''dark'' < 8 \<and>
   invoke_tool (buildEditAppTool (\<lambda>v s. v # s)) [(''modificationRequest'', JSString ''dark'')] [] =
     (None, []) \<and>
   invoke_tool (buildEditAppTool (\<lambda>v s. v # s)) example_args [] =
     (Some (Inr example_ack), [JSString ''Add a dark-mode toggle''])"
proof -
  have p: "property [(''modificationRequest'', JSString ''dark'')] ''modificationRequest'' = JSString ''dark''"
    by (simp add: property_def)
  have l: "length ''dark'' < 8" by simp
  have ok: "invoke_tool (buildEditAppTool (\<lambda>v s. v # s)) example_args [] =
     (Some (Inr example_ack), [JSString ''Add a dark-mode toggle''])"
    by (simp add: invoke_tool_def buildEditAppTool_def example_args_def example_ack_def property_def)
  from buildEditAppTool_contract
    [of "\<lambda>v s. v # s" "[(''modificationRequest'', JSString ''dark'')]" "[]" "''dark''"] p l ok
  show ?thesis by simp
qed

text \<open>
  C7. \<open>attachLifecycle\<close> leaves \<open>type\<close>, \<open>function\<close> (name and schema) and
  \<open>implementation\<close> of a tool as they are. Its \<open>onStart\<close> calls the callback with the
  empty text, the turn's conversation identifier, \<open>isStreaming = false\<close> and a tool
  event that has the tool's name, the status \<open>start\<close> and the call's arguments; its
  \<open>onComplete\<close> does the same with the status \<open>success\<close>. No call that a turn makes
  to a recording callback has a tool event with the status \<open>error\<close>; the calls with a
  tool event have the empty text and are not streaming.
\<close>

theorem attachLifecycle_hooks:
  fixes inputs :: "'w UserConversationInputs"
    and observed :: "callback_call list UserConversationInputs"
  shows
  "type (attachLifecycle inputs aiConversationId td) = type td \<and>
   function' (attachLifecycle inputs aiConversationId td) = function' td \<and>
   implementation (attachLifecycle inputs aiConversationId td) = implementation td \<and>
   onStart (attachLifecycle inputs aiConversationId td) =
     Some (\<lambda>x s. s\<lparr>callback_target :=
        conversationResponseCallback inputs '''' aiConversationId False
          (Some \<lparr>tool_name = name (function' td), status = StatusStart, args = Some x\<rparr>)
          (callback_target s)\<rparr>) \<and>
   onComplete (attachLifecycle inputs aiConversationId td) =
     Some (\<lambda>x result s. s\<lparr>callback_target :=
        conversationResponseCallback inputs '''' aiConversationId False
          (Some \<lparr>tool_name = name (function' td), status = StatusSuccess, args = Some x\<rparr>)
          (callback_target s)\<rparr>) \<and>
   (conversationResponseCallback observed = record_call \<longrightarrow>
      (\<exists>new. outside (snd (execute run systemPromptsResult t0 t1 observed w)) = outside w @ new \<and>
         (\<forall>c \<in> set new. \<forall>ev. tool c = Some ev \<longrightarrow>
            status ev \<noteq> StatusError \<and> message c = '''' \<and> \<not> isStreaming c)))"
proof -
  have n: "conversationResponseCallback observed = record_call \<longrightarrow>
      (\<exists>new. outside (snd (execute run systemPromptsResult t0 t1 observed w)) = outside w @ new \<and>
         (\<forall>c \<in> set new. \<forall>ev. tool c = Some ev \<longrightarrow>
            status ev \<noteq> StatusError \<and> message c = '''' \<and> \<not> isStreaming c))"
  proof
    assume cb: "conversationResponseCallback observed = record_call"
    from execute_try_outside [of run systemPromptsResult t0 t1 observed w]
    obtain cid n0 n1 cs where
      "outside (snd (execute_try run systemPromptsResult t0 t1 observed w)) =
         outside w @ concat (map (emitted cid n0 n1) cs)"
      by (auto simp add: cb deliver_record_call)
    then have o: "outside (snd (execute run systemPromptsResult t0 t1 observed w)) =
         outside w @ concat (map (emitted cid n0 n1) cs)"
      by (simp add: execute_outside)
    have "\<forall>c \<in> set (concat (map (emitted cid n0 n1) cs)). \<forall>ev. tool c = Some ev \<longrightarrow>
            status ev \<noteq> StatusError \<and> message c = '''' \<and> \<not> isStreaming c"
      using emitted_status by fastforce
    with o show "\<exists>new. outside (snd (execute run systemPromptsResult t0 t1 observed w)) = outside w @ new \<and>
         (\<forall>c \<in> set new. \<forall>ev. tool c = Some ev \<longrightarrow>
            status ev \<noteq> StatusError \<and> message c = '''' \<and> \<not> isStreaming c)"
      by blast
  qed
  show ?thesis using n by (simp add: attachLifecycle_def)
qed

theorem attachLifecycle_hooks_witness:
  "conversationResponseCallback example_inputs = record_call \<and>
   function' (attachLifecycle example_inputs ''conv-i'' (module_tool example_web)) =
     function' example_web \<and>
   (\<exists>new. outside (snd (execute example_run (Inr []) example_web example_weather example_inputs
                          example_world)) = outside example_world @ new \<and>
      (\<forall>c \<in> set new. \<forall>ev. tool c = Some ev \<longrightarrow>
         status ev \<noteq> StatusError \<and> message c = '''' \<and> \<not> isStreaming c))"
proof -
  have cb: "conversationResponseCallback example_inputs = record_call"
    by (simp add: example_inputs_def)
  note h = attachLifecycle_hooks
    [of example_inputs "''conv-i''" "module_tool example_web" example_inputs example_run "Inr []"
        example_web example_weather example_world]
  have f: "function' (attachLifecycle example_inputs ''conv-i'' (module_tool example_web)) =
     function' example_web"
    unfolding h [THEN conjunct2, THEN conjunct1] by (simp add: module_tool_def)
  note e = h [THEN conjunct2, THEN conjunct2, THEN conjunct2, THEN conjunct2, THEN conjunct2,
    THEN mp, OF cb]
  from cb f e show ?thesis by (intro conjI)
qed

end
